theory Spec2Isabelle
  imports Complex_Main "HOL-Library.Sublist"
begin

section \<open>Python values\<close>

text \<open>
  A Python \<open>str\<close> is a sequence of Unicode code points; \<open>str\<close> embeds an ASCII
  literal of the source.
\<close>

type_synonym pystr = "nat list"

definition str :: "string \<Rightarrow> pystr" where
  "str s = map of_char s"

text \<open>
  The values \<open>json.loads\<close> can produce, which are also the values of the dicts the
  adapter builds. A dict is an association list read with \<open>map_of\<close>; its keys are
  strings, as JSON's are. The payload of a float is never computed with.
\<close>

datatype pyval =
    PNone
  | PBool bool
  | PInt int
  | PFloat real
  | PStr pystr
  | PList "pyval list"
  | PDict "(pystr \<times> pyval) list"

text \<open>The subscripts the source uses: string keys and an integer index.\<close>

datatype key = KStr pystr | KInt int

section \<open>The HTTP exchange\<close>

text \<open>
  The keyword arguments of \<open>requests.post(self.endpoint, headers=headers, json=data,
  verify=False)\<close>.
\<close>

record request =
  url :: pystr
  headers :: "(pystr \<times> pystr) list"
  json :: pyval
  verify :: bool

text \<open>
  The \<open>requests.Response\<close> object as far as the adapter reads it: the status code,
  the body, and what \<open>response.json()\<close> gives for that body (\<open>None\<close> when the body
  is not JSON).
\<close>

record response =
  status_code :: int
  content :: pystr
  json_result :: "pyval option"

datatype exn =
    HTTPError response
  | JSONDecodeError
  | TypeError
  | KeyError key
  | IndexError
  | AttributeError
  | ConnectionError

definition and_then :: "exn + 'a \<Rightarrow> ('a \<Rightarrow> exn + 'b) \<Rightarrow> exn + 'b" where
  "and_then m f = (case m of Inl e \<Rightarrow> Inl e | Inr x \<Rightarrow> f x)"

section \<open>Built-in operations of Python used by the adapter\<close>

text \<open>
  \<open>str.isspace\<close> on one code point: U+0009..U+000D, U+001C..U+0020, U+0085, U+00A0,
  U+1680, U+2000..U+200A, U+2028, U+2029, U+202F, U+205F, U+3000.
\<close>

definition isspace :: "nat \<Rightarrow> bool" where
  "isspace c \<longleftrightarrow>
     (9 \<le> c \<and> c \<le> 13) \<or> (28 \<le> c \<and> c \<le> 32) \<or> c = 133 \<or> c = 160 \<or> c = 5760 \<or>
     (8192 \<le> c \<and> c \<le> 8202) \<or> c = 8232 \<or> c = 8233 \<or> c = 8239 \<or> c = 8287 \<or>
     c = 12288"

text \<open>\<open>s.strip()\<close> on a string.\<close>

definition strip :: "pystr \<Rightarrow> pystr" where
  "strip s = rev (dropWhile isspace (rev (dropWhile isspace s)))"

text \<open>\<open>x.strip()\<close> on any value: only a string has the method.\<close>

fun strip_method :: "pyval \<Rightarrow> exn + pystr" where
  "strip_method (PStr s) = Inr (strip s)"
| "strip_method _ = Inl AttributeError"

text \<open>
  \<open>k in x\<close> for a string \<open>k\<close>: key membership in a dict, element membership in a
  list, substring test in a string; the other values are not iterable.
\<close>

fun contains :: "pyval \<Rightarrow> pystr \<Rightarrow> exn + bool" where
  "contains (PDict d) k = Inr (k \<in> fst ` set d)"
| "contains (PList xs) k = Inr (PStr k \<in> set xs)"
| "contains (PStr s) k = Inr (sublist k s)"
| "contains _ k = Inl TypeError"

text \<open>\<open>len(x)\<close>: a dict counts its keys; numbers, booleans and \<open>None\<close> have no length.\<close>

fun len :: "pyval \<Rightarrow> exn + nat" where
  "len (PDict d) = Inr (length (remdups (map fst d)))"
| "len (PList xs) = Inr (length xs)"
| "len (PStr s) = Inr (length s)"
| "len _ = Inl TypeError"

text \<open>
  \<open>xs[i]\<close> on a sequence: positions \<open>0\<close> to \<open>len(xs) - 1\<close> from the front,
  \<open>-1\<close> down to \<open>-len(xs)\<close> from the back, \<open>IndexError\<close> outside both.
\<close>

definition index :: "'a list \<Rightarrow> int \<Rightarrow> exn + 'a" where
  "index xs i =
     (if 0 \<le> i \<and> i < int (length xs) then Inr (xs ! nat i)
      else if - int (length xs) \<le> i \<and> i < 0 then Inr (xs ! nat (int (length xs) + i))
      else Inl IndexError)"

text \<open>
  \<open>x[k]\<close>: a dict raises \<open>KeyError\<close> for a key it lacks (an integer is never a key
  of a dict parsed from JSON); a list or string takes integers only; the other values
  are not subscriptable.
\<close>

fun getitem :: "pyval \<Rightarrow> key \<Rightarrow> exn + pyval" where
  "getitem (PDict d) (KStr k) =
     (case map_of d k of None \<Rightarrow> Inl (KeyError (KStr k)) | Some v \<Rightarrow> Inr v)"
| "getitem (PDict d) (KInt i) = Inl (KeyError (KInt i))"
| "getitem (PList xs) (KInt i) = index xs i"
| "getitem (PList xs) (KStr k) = Inl TypeError"
| "getitem (PStr s) (KInt i) = and_then (index s i) (\<lambda>c. Inr (PStr [c]))"
| "getitem (PStr s) (KStr k) = Inl TypeError"
| "getitem _ k = Inl TypeError"

text \<open>
  \<open>response.raise_for_status()\<close>, a method of the \<open>requests\<close> library: it raises
  \<open>HTTPError\<close> holding the response (so its status code and body) for a client
  error, \<open>400 \<le> status_code < 500\<close>, and for a server error,
  \<open>500 \<le> status_code < 600\<close>; for every other status it returns.
\<close>

definition raise_for_status :: "response \<Rightarrow> exn + unit" where
  "raise_for_status r =
     (if 400 \<le> status_code r \<and> status_code r < 600 then Inl (HTTPError r) else Inr ())"

text \<open>\<open>response.json()\<close>: the parsed body, or a parse error.\<close>

definition json_method :: "response \<Rightarrow> exn + pyval" where
  "json_method r = (case json_result r of None \<Rightarrow> Inl JSONDecodeError | Some v \<Rightarrow> Inr v)"

section \<open>The adapter\<close>

text \<open>The fields of \<open>CustomMistralLLM\<close>.\<close>

record adapter =
  endpoint :: pystr
  auth_token :: pystr
  temperature :: real

text \<open>
  Construction: \<open>endpoint\<close> and \<open>auth_token\<close> are required, \<open>temperature\<close> defaults
  to the float written \<open>0.7\<close>, whose exact value is 3152519739159347 / 2^52.
\<close>

definition CustomMistralLLM :: "pystr \<Rightarrow> pystr \<Rightarrow> real option \<Rightarrow> adapter" where
  "CustomMistralLLM e a t =
     \<lparr>endpoint = e, auth_token = a,
      temperature = (case t of None \<Rightarrow> 3152519739159347 / 4503599627370496 | Some x \<Rightarrow> x)\<rparr>"

definition llm_type :: "adapter \<Rightarrow> pystr" where
  "llm_type self = str ''custom_mistral''"

text \<open>
  What a call can touch: the adapter object and the network, the latter recorded as the
  list of requests sent so far.
\<close>

record world =
  llm :: adapter
  sent :: "request list"

text \<open>
  \<open>_call(self, prompt, stop=None, **kwargs)\<close>. \<open>requests.post\<close> sends the request and
  blocks for the endpoint's reply; the reply, a response or the exception that \<open>post\<close>
  raises, is the parameter \<open>reply\<close>. The result is the returned string or the
  exception raised, with the world after the call.
\<close>

definition call ::
  "exn + response \<Rightarrow> pystr \<Rightarrow> pystr list option \<Rightarrow> 'kw \<Rightarrow> world
     \<Rightarrow> (exn + pystr) \<times> world" where
  "call reply prompt stop kwargs w =
     (let self = llm w;
          headers = [(str ''Authorization'', str ''Bearer '' @ auth_token self),
                     (str ''Content-Type'', str ''application/json'')];
          data = PDict [(str ''prompt'', PStr prompt)];
          req = \<lparr>url = endpoint self, headers = headers, json = data, verify = False\<rparr>;
          w' = w\<lparr>sent := sent w @ [req]\<rparr>
      in (and_then reply (\<lambda>response.
          and_then (raise_for_status response) (\<lambda>_.
          and_then (json_method response) (\<lambda>response_json.
          and_then (contains response_json (str ''outputs'')) (\<lambda>present.
          and_then (if present
                    then and_then (getitem response_json (KStr (str ''outputs'')))
                           (\<lambda>outputs. and_then (len outputs) (\<lambda>n. Inr (n > 0)))
                    else Inr False) (\<lambda>nonempty.
          if nonempty
          then and_then (getitem response_json (KStr (str ''outputs''))) (\<lambda>outputs.
               and_then (getitem outputs (KInt 0)) (\<lambda>first.
               and_then (getitem first (KStr (str ''text''))) strip_method))
          else Inr (str ''No text generated.'')))))), w'))"

text \<open>The property \<open>_identifying_params\<close>.\<close>

definition identifying_params :: "adapter \<Rightarrow> (pystr \<times> pyval) list" where
  "identifying_params self =
     [(str ''endpoint'', PStr (endpoint self)), (str ''temperature'', PFloat (temperature self))]"

text \<open>
  The world after a sequence of calls, each with its own reply and arguments; an
  exception raised by one call does not prevent the next.
\<close>

fun after_calls ::
  "world \<Rightarrow> ((exn + response) \<times> pystr \<times> pystr list option \<times> 'kw) list \<Rightarrow> world" where
  "after_calls w [] = w"
| "after_calls w ((reply, prompt, stop, kwargs) # cs) =
     after_calls (snd (call reply prompt stop kwargs w)) cs"

section \<open>Unfolding a call\<close>

lemma raise_for_status_2xx:
  "200 \<le> status_code r \<Longrightarrow> status_code r < 300 \<Longrightarrow> raise_for_status r = Inr ()"
  by (simp add: raise_for_status_def)

lemma in_keys_iff: "k \<in> fst ` set d \<longleftrightarrow> map_of d k \<noteq> None"
  by (simp add: map_of_eq_None_iff)

lemma fst_call:
  "fst (call reply prompt stop kwargs w) =
     and_then reply (\<lambda>response.
     and_then (raise_for_status response) (\<lambda>_.
     and_then (json_method response) (\<lambda>response_json.
     and_then (contains response_json (str ''outputs'')) (\<lambda>present.
     and_then (if present
               then and_then (getitem response_json (KStr (str ''outputs'')))
                      (\<lambda>outputs. and_then (len outputs) (\<lambda>n. Inr (n > 0)))
               else Inr False) (\<lambda>nonempty.
     if nonempty
     then and_then (getitem response_json (KStr (str ''outputs''))) (\<lambda>outputs.
          and_then (getitem outputs (KInt 0)) (\<lambda>first.
          and_then (getitem first (KStr (str ''text''))) strip_method))
     else Inr (str ''No text generated.''))))))"
  by (simp add: call_def Let_def)

lemma snd_call:
  "snd (call reply prompt stop kwargs w) =
     w\<lparr>sent := sent w @
       [\<lparr>url = endpoint (llm w),
         headers = [(str ''Authorization'', str ''Bearer '' @ auth_token (llm w)),
                    (str ''Content-Type'', str ''application/json'')],
         json = PDict [(str ''prompt'', PStr prompt)], verify = False\<rparr>]\<rparr>"
  by (simp add: call_def Let_def)

text \<open>
  A 2xx response whose body parses to an object: the call is decided by the object's
  \<open>outputs\<close> entry.
\<close>

lemma fst_call_dict:
  assumes "200 \<le> status_code r" and "status_code r < 300"
    and "json_result r = Some (PDict d)"
  shows "fst (call (Inr r) prompt stop kwargs w) =
     (case map_of d (str ''outputs'') of
        None \<Rightarrow> Inr (str ''No text generated.'')
      | Some outputs \<Rightarrow>
          and_then (len outputs) (\<lambda>n.
            if n > 0
            then and_then (getitem outputs (KInt 0)) (\<lambda>first.
                 and_then (getitem first (KStr (str ''text''))) strip_method)
            else Inr (str ''No text generated.'')))"
  using assms
  by (simp add: fst_call raise_for_status_2xx json_method_def and_then_def in_keys_iff
      split: option.splits sum.splits)

lemma llm_call: "llm (snd (call reply prompt stop kwargs w)) = llm w"
  by (simp add: snd_call)

lemma llm_after_calls: "llm (after_calls w cs) = llm w"
  by (induction w cs rule: after_calls.induct) (simp_all add: llm_call)

section \<open>The claims\<close>

text \<open>
  C1: for every response with a 2xx status whose body parses to a JSON object whose
  \<open>outputs\<close> is a non-empty list and whose element 0 is an object with a \<open>text\<close>
  string, the call returns that text with leading and trailing whitespace stripped.
  The other elements and the other fields are not read.
\<close>

theorem call_returns_stripped_text:
  assumes "200 \<le> status_code r" and "status_code r < 300"
    and "json_result r = Some (PDict d)"
    and "map_of d (str ''outputs'') = Some (PList (PDict e # rest))"
    and "map_of e (str ''text'') = Some (PStr t)"
  shows "fst (call (Inr r) prompt stop kwargs w) = Inr (strip t)"
  using assms(4,5) by (simp add: fst_call_dict [OF assms(1-3)] and_then_def index_def)

text \<open>
  The endpoint answers 200 with \<open>{"outputs":[{"text":"  hello world  "}]}\<close>: the call
  with the prompt \<open>hi\<close> returns \<open>hello world\<close>.
\<close>

theorem call_returns_stripped_text_witness:
  "fst (call
      (Inr \<lparr>status_code = 200,
            content = str ''{\"outputs\":[{\"text\":\"  hello world  \"}]}'',
            json_result = Some (PDict [(str ''outputs'',
              PList [PDict [(str ''text'', PStr (str ''  hello world  ''))]])])\<rparr>)
      (str ''hi'') None ()
      \<lparr>llm = CustomMistralLLM (str ''https://host/generate'') (str ''secret'') None,
       sent = []\<rparr>)
   = Inr (str ''hello world'')"
  using call_returns_stripped_text [of
      "\<lparr>status_code = 200,
        content = str ''{\"outputs\":[{\"text\":\"  hello world  \"}]}'',
        json_result = Some (PDict [(str ''outputs'',
          PList [PDict [(str ''text'', PStr (str ''  hello world  ''))]])])\<rparr>"
      "[(str ''outputs'', PList [PDict [(str ''text'', PStr (str ''  hello world  ''))]])]"
      "[(str ''text'', PStr (str ''  hello world  ''))]" "[]" "str ''  hello world  ''"
      "str ''hi''" None "()"
      "\<lparr>llm = CustomMistralLLM (str ''https://host/generate'') (str ''secret'') None,
        sent = []\<rparr>"]
  by (simp add: strip_def isspace_def str_def)

text \<open>
  C2, as the code has it: for every response with a 2xx status whose body parses to a
  JSON object, the call returns \<open>No text generated.\<close> and raises nothing when
  \<open>outputs\<close> is absent or is an empty list, string or object; when \<open>outputs\<close> is a
  non-empty list whose element 0 is an object without a \<open>text\<close> field, the call
  raises \<open>KeyError\<close> for \<open>text\<close> and returns no string.
\<close>

theorem call_fallback_or_KeyError:
  assumes "200 \<le> status_code r" and "status_code r < 300"
    and "json_result r = Some (PDict d)"
  shows "(map_of d (str ''outputs'') \<in> {None, Some (PList []), Some (PStr []), Some (PDict [])}
            \<longrightarrow> fst (call (Inr r) prompt stop kwargs w) = Inr (str ''No text generated.''))
       \<and> (map_of d (str ''outputs'') = Some (PList (PDict e # rest)) \<and>
            map_of e (str ''text'') = None
            \<longrightarrow> fst (call (Inr r) prompt stop kwargs w) = Inl (KeyError (KStr (str ''text''))))"
  by (auto simp: fst_call_dict [OF assms] and_then_def index_def)

text \<open>
  The endpoint answers 200 with \<open>{}\<close>: the fallback string; with
  \<open>{"outputs":[{}]}\<close>: \<open>KeyError\<close>.
\<close>

theorem call_fallback_or_KeyError_witness:
  "fst (call
      (Inr \<lparr>status_code = 200, content = str ''{}'',
            json_result = Some (PDict [])\<rparr>)
      (str ''hi'') None ()
      \<lparr>llm = CustomMistralLLM (str ''https://host/generate'') (str ''secret'') None,
       sent = []\<rparr>)
   = Inr (str ''No text generated.'')
   \<and> fst (call
      (Inr \<lparr>status_code = 200, content = str ''{\"outputs\":[{}]}'',
            json_result = Some (PDict [(str ''outputs'', PList [PDict []])])\<rparr>)
      (str ''hi'') None ()
      \<lparr>llm = CustomMistralLLM (str ''https://host/generate'') (str ''secret'') None,
       sent = []\<rparr>)
   = Inl (KeyError (KStr (str ''text'')))"
  using call_fallback_or_KeyError [of
      "\<lparr>status_code = 200, content = str ''{}'',
            json_result = Some (PDict [])\<rparr>"
      "[]" "str ''hi''" None "()"
      "\<lparr>llm = CustomMistralLLM (str ''https://host/generate'') (str ''secret'') None,
       sent = []\<rparr>"
      "[]" "[]"]
    call_fallback_or_KeyError [of
      "\<lparr>status_code = 200, content = str ''{\"outputs\":[{}]}'',
            json_result = Some (PDict [(str ''outputs'', PList [PDict []])])\<rparr>"
      "[(str ''outputs'', PList [PDict []])]" "str ''hi''" None "()"
      "\<lparr>llm = CustomMistralLLM (str ''https://host/generate'') (str ''secret'') None,
       sent = []\<rparr>"
      "[]" "[]"]
  by simp

text \<open>
  C2 as stated fails: a 200 response with the body \<open>{"outputs":[{}]}\<close>, a non-empty
  \<open>outputs\<close> whose element 0 lacks \<open>text\<close>, makes the call raise \<open>KeyError\<close>.
\<close>

theorem call_malformed_shape_counterexample:
  "fst (call
      (Inr \<lparr>status_code = 200, content = str ''{\"outputs\":[{}]}'',
            json_result = Some (PDict [(str ''outputs'', PList [PDict []])])\<rparr>)
      (str ''hi'') None ()
      \<lparr>llm = CustomMistralLLM (str ''https://host/generate'') (str ''secret'') None,
       sent = []\<rparr>)
   = Inl (KeyError (KStr (str ''text'')))"
  by (simp add: fst_call raise_for_status_def json_method_def and_then_def index_def str_def)

text \<open>
  C3, as the code has it: for every response whose status is a client or server error,
  400 to 599, the call raises the HTTP error holding that response, so its status code
  and body, after the one request it sent; it returns no string, the fallback string
  included.
\<close>

theorem call_raises_HTTPError:
  assumes "400 \<le> status_code r" and "status_code r < 600"
  shows "fst (call (Inr r) prompt stop kwargs w) = Inl (HTTPError r)
       \<and> length (sent (snd (call (Inr r) prompt stop kwargs w))) = Suc (length (sent w))"
  using assms by (simp add: fst_call snd_call raise_for_status_def and_then_def)

text \<open>The endpoint answers 500: the call raises the HTTP error with that response.\<close>

theorem call_raises_HTTPError_witness:
  "fst (call
      (Inr \<lparr>status_code = 500, content = str ''Internal Server Error'',
            json_result = None\<rparr>)
      (str ''hi'') None ()
      \<lparr>llm = CustomMistralLLM (str ''https://host/generate'') (str ''secret'') None,
       sent = []\<rparr>)
   = Inl (HTTPError
      \<lparr>status_code = 500, content = str ''Internal Server Error'',
            json_result = None\<rparr>)"
  using call_raises_HTTPError [of
      "\<lparr>status_code = 500, content = str ''Internal Server Error'',
            json_result = None\<rparr>"
      "str ''hi''" None "()"
      "\<lparr>llm = CustomMistralLLM (str ''https://host/generate'') (str ''secret'') None,
       sent = []\<rparr>"]
  by simp

text \<open>
  C3 as stated fails for a status outside both 2xx and 400 to 599: a 300 response with
  the body \<open>{"outputs":[{"text":"x"}]}\<close> raises nothing, and the call returns \<open>x\<close>.
\<close>

theorem call_status_300_counterexample:
  "fst (call
      (Inr \<lparr>status_code = 300, content = str ''{\"outputs\":[{\"text\":\"x\"}]}'',
            json_result = Some (PDict [(str ''outputs'', PList [PDict [(str ''text'', PStr (str ''x''))]])])\<rparr>)
      (str ''hi'') None ()
      \<lparr>llm = CustomMistralLLM (str ''https://host/generate'') (str ''secret'') None,
       sent = []\<rparr>)
   = Inr (str ''x'')"
  by (simp add: fst_call raise_for_status_def json_method_def and_then_def index_def
      strip_def isspace_def str_def)

text \<open>
  C4: for every response with a 2xx status whose body parses to a JSON object that has
  no \<open>outputs\<close> key, or whose \<open>outputs\<close> is the empty list, the call returns
  \<open>No text generated.\<close>.
\<close>

theorem call_fallback_absent_or_empty_list:
  assumes "200 \<le> status_code r" and "status_code r < 300"
    and "json_result r = Some (PDict d)"
    and "map_of d (str ''outputs'') = None \<or> map_of d (str ''outputs'') = Some (PList [])"
  shows "fst (call (Inr r) prompt stop kwargs w) = Inr (str ''No text generated.'')"
  using assms(4) by (auto simp: fst_call_dict [OF assms(1-3)] and_then_def)

text \<open>The endpoint answers 200 with \<open>{"outputs":[]}\<close>, and with \<open>{}\<close>.\<close>

theorem call_fallback_absent_or_empty_list_witness:
  "fst (call
      (Inr \<lparr>status_code = 200, content = str ''{\"outputs\":[]}'',
            json_result = Some (PDict [(str ''outputs'', PList [])])\<rparr>)
      (str ''hi'') None ()
      \<lparr>llm = CustomMistralLLM (str ''https://host/generate'') (str ''secret'') None,
       sent = []\<rparr>)
   = Inr (str ''No text generated.'')
   \<and> fst (call
      (Inr \<lparr>status_code = 200, content = str ''{}'',
            json_result = Some (PDict [])\<rparr>)
      (str ''hi'') None ()
      \<lparr>llm = CustomMistralLLM (str ''https://host/generate'') (str ''secret'') None,
       sent = []\<rparr>)
   = Inr (str ''No text generated.'')"
  using call_fallback_absent_or_empty_list [of
      "\<lparr>status_code = 200, content = str ''{\"outputs\":[]}'',
            json_result = Some (PDict [(str ''outputs'', PList [])])\<rparr>"
      "[(str ''outputs'', PList [])]" "str ''hi''" None "()"
      "\<lparr>llm = CustomMistralLLM (str ''https://host/generate'') (str ''secret'') None,
       sent = []\<rparr>"]
    call_fallback_absent_or_empty_list [of
      "\<lparr>status_code = 200, content = str ''{}'',
            json_result = Some (PDict [])\<rparr>"
      "[]" "str ''hi''" None "()"
      "\<lparr>llm = CustomMistralLLM (str ''https://host/generate'') (str ''secret'') None,
       sent = []\<rparr>"]
  by simp

text \<open>
  C5: for every prompt, stop list and extra keyword arguments, and whatever the
  adapter's temperature, the call sends one request, whose JSON body is the dict with
  the single entry \<open>prompt\<close>.
\<close>

theorem call_body_is_prompt_only:
  "\<exists>req. sent (snd (call reply prompt stop kwargs w)) = sent w @ [req]
     \<and> json req = PDict [(str ''prompt'', PStr prompt)]"
  by (simp add: snd_call)

text \<open>
  C6: for every response with a 2xx status whose body is not JSON, the call raises the
  parse error of \<open>response.json()\<close> and returns no string.
\<close>

theorem call_raises_JSONDecodeError:
  assumes "200 \<le> status_code r" and "status_code r < 300"
    and "json_result r = None"
  shows "fst (call (Inr r) prompt stop kwargs w) = Inl JSONDecodeError"
  using assms by (simp add: fst_call raise_for_status_2xx json_method_def and_then_def)

text \<open>The endpoint answers 200 with a body that is not JSON.\<close>

theorem call_raises_JSONDecodeError_witness:
  "fst (call
      (Inr \<lparr>status_code = 200, content = str ''<html>ok</html>'',
            json_result = None\<rparr>)
      (str ''hi'') None ()
      \<lparr>llm = CustomMistralLLM (str ''https://host/generate'') (str ''secret'') None,
       sent = []\<rparr>)
   = Inl JSONDecodeError"
  using call_raises_JSONDecodeError [of
      "\<lparr>status_code = 200, content = str ''<html>ok</html>'',
            json_result = None\<rparr>"
      "str ''hi''" None "()"
      "\<lparr>llm = CustomMistralLLM (str ''https://host/generate'') (str ''secret'') None,
       sent = []\<rparr>"]
  by simp

text \<open>
  C7: every call sends one request, to the adapter's endpoint, whose headers are
  \<open>Authorization: Bearer <auth_token>\<close> and \<open>Content-Type: application/json\<close> and no
  other, with \<open>verify=False\<close>.
\<close>

theorem call_headers_and_verify:
  "\<exists>req. sent (snd (call reply prompt stop kwargs w)) = sent w @ [req]
     \<and> url req = endpoint (llm w)
     \<and> headers req = [(str ''Authorization'', str ''Bearer '' @ auth_token (llm w)),
                       (str ''Content-Type'', str ''application/json'')]
     \<and> verify req = False"
  by (simp add: snd_call)

text \<open>
  C8: for an adapter constructed from an endpoint, a token and an optional temperature,
  after any sequence of calls the adapter is the constructed one, and its identifying
  parameters are the mapping with exactly the keys \<open>endpoint\<close> and \<open>temperature\<close>,
  bound to the constructed values; \<open>auth_token\<close> is not a key. The accessor returns
  the mapping only: it has no world to change.
\<close>

theorem identifying_params_after_calls:
  "llm (after_calls \<lparr>llm = CustomMistralLLM e a t, sent = s\<rparr> cs) = CustomMistralLLM e a t
   \<and> identifying_params (llm (after_calls \<lparr>llm = CustomMistralLLM e a t, sent = s\<rparr> cs))
       = [(str ''endpoint'', PStr e),
          (str ''temperature'',
           PFloat (case t of None \<Rightarrow> 3152519739159347 / 4503599627370496 | Some x \<Rightarrow> x))]
   \<and> dom (map_of (identifying_params
         (llm (after_calls \<lparr>llm = CustomMistralLLM e a t, sent = s\<rparr> cs))))
       = {str ''endpoint'', str ''temperature''}
   \<and> str ''auth_token'' \<notin> dom (map_of (identifying_params
         (llm (after_calls \<lparr>llm = CustomMistralLLM e a t, sent = s\<rparr> cs))))"
  by (auto simp add: llm_after_calls identifying_params_def CustomMistralLLM_def str_def)

text \<open>
  C9: two calls that receive the same reply return the same string, or raise the same
  exception, whatever their prompts, stop lists, extra keyword arguments and adapters.
\<close>

theorem call_result_depends_on_reply_only:
  "fst (call reply prompt stop kwargs w) = fst (call reply prompt' stop' kwargs' w')"
  by (simp add: fst_call)

text \<open>
  C10: for every response with a 2xx status whose body parses to a JSON object in which
  \<open>outputs\<close> is present and is the empty list, the empty string or the empty object,
  the call returns \<open>No text generated.\<close>.
\<close>

theorem call_fallback_empty_sized:
  assumes "200 \<le> status_code r" and "status_code r < 300"
    and "json_result r = Some (PDict d)"
    and "map_of d (str ''outputs'') = Some v"
    and "v = PList [] \<or> v = PStr [] \<or> v = PDict []"
  shows "fst (call (Inr r) prompt stop kwargs w) = Inr (str ''No text generated.'')"
  using assms(4,5) by (auto simp: fst_call_dict [OF assms(1-3)] and_then_def)

text \<open>The endpoint answers 200 with \<open>{"outputs":""}\<close>, and with \<open>{"outputs":{}}\<close>.\<close>

theorem call_fallback_empty_sized_witness:
  "fst (call
      (Inr \<lparr>status_code = 200, content = str ''{\"outputs\":\"\"}'',
            json_result = Some (PDict [(str ''outputs'', PStr [])])\<rparr>)
      (str ''hi'') None ()
      \<lparr>llm = CustomMistralLLM (str ''https://host/generate'') (str ''secret'') None,
       sent = []\<rparr>)
   = Inr (str ''No text generated.'')
   \<and> fst (call
      (Inr \<lparr>status_code = 200, content = str ''{\"outputs\":{}}'',
            json_result = Some (PDict [(str ''outputs'', PDict [])])\<rparr>)
      (str ''hi'') None ()
      \<lparr>llm = CustomMistralLLM (str ''https://host/generate'') (str ''secret'') None,
       sent = []\<rparr>)
   = Inr (str ''No text generated.'')"
  using call_fallback_empty_sized [of
      "\<lparr>status_code = 200, content = str ''{\"outputs\":\"\"}'',
            json_result = Some (PDict [(str ''outputs'', PStr [])])\<rparr>"
      "[(str ''outputs'', PStr [])]" "PStr []" "str ''hi''" None "()"
      "\<lparr>llm = CustomMistralLLM (str ''https://host/generate'') (str ''secret'') None,
       sent = []\<rparr>"]
    call_fallback_empty_sized [of
      "\<lparr>status_code = 200, content = str ''{\"outputs\":{}}'',
            json_result = Some (PDict [(str ''outputs'', PDict [])])\<rparr>"
      "[(str ''outputs'', PDict [])]" "PDict []" "str ''hi''" None "()"
      "\<lparr>llm = CustomMistralLLM (str ''https://host/generate'') (str ''secret'') None,
       sent = []\<rparr>"]
  by simp

end
